theory Spec2Isabelle
  imports Complex_Main "HOL-Library.Word" "HOL-Library.Log_Nat"
begin

section \<open>The unified projection camera of aslam\_cv\<close>

text \<open>
  A shallow embedding of \<^verbatim>\<open>aslam_cv/src/camera-unified-projection.cc\<close> and of its
  header. The member functions of \<^verbatim>\<open>UnifiedProjectionCamera\<close> become functions of a
  camera record. Output pointers become arguments holding the pointee's content before the
  call (\<open>None\<close> for \<^verbatim>\<open>nullptr\<close>) and results holding it after the call. A failed
  \<^verbatim>\<open>CHECK\<close> is the error value \<open>CheckFailed\<close>.

  In this part a \<^verbatim>\<open>double\<close> is a \<^typ>\<open>real\<close> and every operation is exact; the
  divisions that can meet a zero divisor, in \<^verbatim>\<open>createRandomKeypoint\<close>, give an infinity or
  NaN as they do for doubles. A later section redoes two functions with the rounding of
  binary64 written out.
\<close>

subsection \<open>Vectors and matrices\<close>

type_synonym vec2 = "real \<times> real"
type_synonym vec3 = "real \<times> real \<times> real"

text \<open>Fixed-size matrices are pairs of rows; a \<^verbatim>\<open>Matrix<double, 2, Dynamic>\<close> is a pair of
  rows of the same, variable length.\<close>

type_synonym mat2 = "vec2 \<times> vec2"
type_synonym mat23 = "vec3 \<times> vec3"
type_synonym mat2X = "real list \<times> real list"

definition Identity2 :: mat2 where
  "Identity2 = ((1, 0), (0, 1))"

definition norm2 :: "vec2 \<Rightarrow> real" where
  "norm2 u = sqrt (fst u * fst u + snd u * snd u)"

definition squaredNorm :: "vec3 \<Rightarrow> real" where
  "squaredNorm p = (case p of (x, y, z) \<Rightarrow> x * x + y * y + z * z)"

definition norm3 :: "vec3 \<Rightarrow> real" where
  "norm3 p = sqrt (squaredNorm p)"

text \<open>\<^verbatim>\<open>J.row(0) *= a; J.row(1) *= b;\<close> on a 2x2 and on a 2xN matrix.\<close>

definition scale_rows2 :: "real \<Rightarrow> real \<Rightarrow> mat2 \<Rightarrow> mat2" where
  "scale_rows2 a b J =
     (case J of ((j00, j01), (j10, j11)) \<Rightarrow> ((a * j00, a * j01), (b * j10, b * j11)))"

definition scale_rowsX :: "real \<Rightarrow> real \<Rightarrow> mat2X \<Rightarrow> mat2X" where
  "scale_rowsX a b J = (map (\<lambda>e. a * e) (fst J), map (\<lambda>e. b * e) (snd J))"

definition mat2_times_vec :: "mat2 \<Rightarrow> vec2 \<Rightarrow> vec2" where
  "mat2_times_vec J w =
     (case J of ((j00, j01), (j10, j11)) \<Rightarrow>
        (j00 * fst w + j01 * snd w, j10 * fst w + j11 * snd w))"

subsection \<open>Doubles that may be infinite or NaN\<close>

text \<open>
  \<^verbatim>\<open>createRandomKeypoint\<close> divides by \<open>xi * xi - 1\<close> and by a norm. Either can be zero, and
  a division of doubles by zero is no error: it gives an infinity or NaN, which the later
  operations carry along. The values of that function are therefore reals extended by the
  two infinities (\<open>Infty True\<close> is the positive one) and NaN, with the rules of IEEE 754 for
  them. The rounding and the overflow of finite values stay idealised.
\<close>

datatype xreal = Fin real | Infty bool | NaN

type_synonym xvec2 = "xreal \<times> xreal"

text \<open>
  The quotient of two finite doubles. The zero divisors in this file come from a
  subtraction or a square root and are positive zeros, so the infinity has the sign of the
  dividend.
\<close>

definition xdiv :: "real \<Rightarrow> real \<Rightarrow> xreal" where
  "xdiv a b = (if b \<noteq> 0 then Fin (a / b) else if a = 0 then NaN else Infty (0 < a))"

fun xmul :: "xreal \<Rightarrow> xreal \<Rightarrow> xreal" where
  "xmul NaN y = NaN"
| "xmul x NaN = NaN"
| "xmul (Fin a) (Fin b) = Fin (a * b)"
| "xmul (Fin a) (Infty t) = (if a = 0 then NaN else Infty (if 0 < a then t else \<not> t))"
| "xmul (Infty s) (Fin b) = (if b = 0 then NaN else Infty (if 0 < b then s else \<not> s))"
| "xmul (Infty s) (Infty t) = Infty (s = t)"

fun xadd :: "xreal \<Rightarrow> xreal \<Rightarrow> xreal" where
  "xadd NaN y = NaN"
| "xadd x NaN = NaN"
| "xadd (Fin a) (Fin b) = Fin (a + b)"
| "xadd (Fin a) (Infty t) = Infty t"
| "xadd (Infty s) (Fin b) = Infty s"
| "xadd (Infty s) (Infty t) = (if s = t then Infty s else NaN)"

subsection \<open>Status, errors, distortion and camera\<close>

datatype Status = KEYPOINT_VISIBLE | KEYPOINT_OUTSIDE_IMAGE_BOX | PROJECTION_INVALID

datatype error = CheckFailed

text \<open>
  \<^verbatim>\<open>aslam::Distortion\<close> is an abstract class whose implementations are not part of these
  sources, so a distortion is a record of its virtual functions and every function of the
  camera takes it as it comes. A coefficient pointer is an option. \<open>distort\<close> is called
  by \<^verbatim>\<open>createRandomKeypoint\<close> only, on points that may be infinite or NaN. The Boolean of
  \<open>distortUsingExternalCoefficients\<close> says whether the Jacobian pointer is non-null; the
  matrix returned is what the callee stores through it.
\<close>

record distortion =
  dist_getParameters :: "real list"
  undistort :: "vec2 \<Rightarrow> vec2"
  distort :: "xvec2 \<Rightarrow> xvec2"
  distortUsingExternalCoefficients :: "real list option \<Rightarrow> vec2 \<Rightarrow> bool \<Rightarrow> vec2 \<times> mat2"
  distortParameterJacobian :: "real list option \<Rightarrow> vec2 \<Rightarrow> mat2X"

record camera =
  intrinsics :: "real list"
  image_width :: "32 word"
  image_height :: "32 word"
  distortion_ptr :: "distortion option"

definition kNumOfParams :: nat where
  "kNumOfParams = 5"

definition parameterCount :: nat where
  "parameterCount = kNumOfParams"

definition kMinimumDepth :: real where
  "kMinimumDepth = 1 / 10 ^ 10"

definition getParameters :: "camera \<Rightarrow> real list" where
  "getParameters c = intrinsics c"

definition xi :: "camera \<Rightarrow> real" where "xi c = intrinsics c ! 0"
definition fu :: "camera \<Rightarrow> real" where "fu c = intrinsics c ! 1"
definition fv :: "camera \<Rightarrow> real" where "fv c = intrinsics c ! 2"
definition cu :: "camera \<Rightarrow> real" where "cu c = intrinsics c ! 3"
definition cv :: "camera \<Rightarrow> real" where "cv c = intrinsics c ! 4"

definition imageWidth :: "camera \<Rightarrow> real" where
  "imageWidth c = real (unat (image_width c))"

definition imageHeight :: "camera \<Rightarrow> real" where
  "imageHeight c = real (unat (image_height c))"

definition fov_parameter :: "real \<Rightarrow> real" where
  "fov_parameter x = (if x \<le> 1 then x else 1 / x)"

text \<open>
  Modelled from the spec: \<^verbatim>\<open>Camera::isKeypointVisible\<close> belongs to the base class, which is
  not among the sources. The spec gives the visibility box as
  \<open>[0, width) \<times> [0, height)\<close>.
\<close>

definition isKeypointVisible :: "camera \<Rightarrow> vec2 \<Rightarrow> bool" where
  "isKeypointVisible c kp =
     (0 \<le> fst kp \<and> fst kp < imageWidth c \<and> 0 \<le> snd kp \<and> snd kp < imageHeight c)"

subsection \<open>Construction\<close>

definition intrinsicsValid :: "real list \<Rightarrow> bool" where
  "intrinsicsValid v =
     (length v = parameterCount \<and>
      v ! 0 \<ge> 0 \<and> v ! 1 > 0 \<and> v ! 2 > 0 \<and> v ! 3 > 0 \<and> v ! 4 > 0)"

text \<open>
  The two constructors from an intrinsics vector (with a distortion pointer and without
  one): the base class stores the arguments, then \<^verbatim>\<open>CHECK(intrinsicsValid(intrinsics))\<close>.
\<close>

definition UnifiedProjectionCamera ::
  "real list \<Rightarrow> 32 word \<Rightarrow> 32 word \<Rightarrow> distortion option \<Rightarrow> error + camera" where
  "UnifiedProjectionCamera v w h dopt =
     (if intrinsicsValid v
      then Inr \<lparr>intrinsics = v, image_width = w, image_height = h, distortion_ptr = dopt\<rparr>
      else Inl CheckFailed)"

text \<open>The two constructors from five scalars delegate to the ones above.\<close>

definition UnifiedProjectionCamera_scalars ::
  "real \<Rightarrow> real \<Rightarrow> real \<Rightarrow> real \<Rightarrow> real \<Rightarrow> 32 word \<Rightarrow> 32 word \<Rightarrow> distortion option
     \<Rightarrow> error + camera" where
  "UnifiedProjectionCamera_scalars x focallength_cols focallength_rows imagecenter_cols
       imagecenter_rows w h dopt =
     UnifiedProjectionCamera
       [x, focallength_cols, focallength_rows, imagecenter_cols, imagecenter_rows] w h dopt"

text \<open>\<^verbatim>\<open>createTestCamera()\<close> of the header, without distortion.\<close>

definition createTestCamera :: "error + camera" where
  "createTestCamera = UnifiedProjectionCamera_scalars (9 / 10) 400 400 320 240 640 480 None"

subsection \<open>Validity predicates and back-projection\<close>

definition isUndistortedKeypointValid :: "real \<Rightarrow> real \<Rightarrow> bool" where
  "isUndistortedKeypointValid rho2_d x = (x \<le> 1 \<or> rho2_d \<le> 1 / (x * x - 1))"

definition isLiftable :: "camera \<Rightarrow> vec2 \<Rightarrow> bool" where
  "isLiftable c keypoint =
     (let y = (1 / fu c * (fst keypoint - cu c), 1 / fv c * (snd keypoint - cv c));
          y = (case distortion_ptr c of None \<Rightarrow> y | Some dm \<Rightarrow> undistort dm y);
          rho2_d = fst y * fst y + snd y * snd y
      in isUndistortedKeypointValid rho2_d (xi c))"

definition backProject3 :: "camera \<Rightarrow> vec2 \<Rightarrow> vec3 option \<Rightarrow> error + bool \<times> vec3" where
  "backProject3 c keypoint out_point_3d =
     (case out_point_3d of
        None \<Rightarrow> Inl CheckFailed
      | Some _ \<Rightarrow>
          let kp = ((fst keypoint - cu c) / fu c, (snd keypoint - cv c) / fv c);
              kp = (case distortion_ptr c of None \<Rightarrow> kp | Some dm \<Rightarrow> undistort dm kp);
              rho2_d = fst kp * fst kp + snd kp * snd kp;
              tmpD = max (1 + (1 - xi c * xi c) * rho2_d) 0
          in Inr (isUndistortedKeypointValid rho2_d (xi c),
                  (fst kp, snd kp, 1 - xi c * (rho2_d + 1) / (xi c + sqrt tmpD))))"

subsection \<open>Forward projection\<close>

definition evaluateProjectionResult :: "camera \<Rightarrow> vec2 \<Rightarrow> vec3 \<Rightarrow> Status" where
  "evaluateProjectionResult c keypoint point_3d =
     (let visibility = isKeypointVisible c keypoint;
          d2 = squaredNorm point_3d;
          minDepth2 = kMinimumDepth * kMinimumDepth
      in if visibility \<and> d2 > minDepth2 then KEYPOINT_VISIBLE
         else if \<not> visibility \<and> d2 > minDepth2 then KEYPOINT_OUTSIDE_IMAGE_BOX
         else if d2 \<le> minDepth2 then PROJECTION_INVALID
         else PROJECTION_INVALID)"

text \<open>The pointer \<^verbatim>\<open>distortion_coefficients\<close> that lines 130 to 135 resolve.\<close>

definition resolve_distortion_coefficients ::
  "camera \<Rightarrow> real list option \<Rightarrow> real list option" where
  "resolve_distortion_coefficients c distortion_coefficients_external =
     (case (distortion_coefficients_external, distortion_ptr c) of
        (None, Some dm) \<Rightarrow> Some (dist_getParameters dm)
      | _ \<Rightarrow> distortion_coefficients_external)"

text \<open>
  Lines 162 to 174: \<open>J_distortion\<close> starts as the identity and the distortion writes it only
  when the camera has a distortion and \<^verbatim>\<open>out_jacobian_point\<close> is non-null.
\<close>

definition distort_keypoint ::
  "distortion option \<Rightarrow> real list option \<Rightarrow> bool \<Rightarrow> vec2 \<Rightarrow> vec2 \<times> mat2" where
  "distort_keypoint dopt distortion_coefficients want_jacobian_point kp =
     (case dopt of
        None \<Rightarrow> (kp, Identity2)
      | Some dm \<Rightarrow>
          if want_jacobian_point
          then distortUsingExternalCoefficients dm distortion_coefficients kp True
          else (fst (distortUsingExternalCoefficients dm distortion_coefficients kp False),
                Identity2))"

text \<open>Lines 177 to 197, one binding for each assignment, in the order of the source.\<close>

definition jacobian_point ::
  "real \<Rightarrow> real \<Rightarrow> real \<Rightarrow> vec3 \<Rightarrow> real \<Rightarrow> real \<Rightarrow> mat2 \<Rightarrow> mat23" where
  "jacobian_point x_i f_u f_v point_3d d rz J_distortion =
     (case point_3d of (x, y, z) \<Rightarrow>
      case J_distortion of ((d00, d01), (d10, d11)) \<Rightarrow>
      let rz2 = rz * rz / d;
          j00 = rz2 * (d * z + x_i * (y * y + z * z));
          j10 = - rz2 * x_i * x * y;
          j01 = j10;
          j11 = rz2 * (d * z + x_i * (x * x + z * z));
          rz2 = rz2 * (- x_i * z - d);
          j02 = x * rz2;
          j12 = y * rz2;
          rz2 = f_u * (j00 * d00 + j10 * d01);
          j10 = f_v * (j00 * d10 + j10 * d11);
          j00 = rz2;
          rz2 = f_u * (j01 * d00 + j11 * d01);
          j11 = f_v * (j01 * d10 + j11 * d11);
          j01 = rz2;
          rz2 = f_u * (j02 * d00 + j12 * d01);
          j12 = f_v * (j02 * d10 + j12 * d11);
          j02 = rz2
      in ((j00, j01, j02), (j10, j11, j12)))"

text \<open>Lines 200 to 215: resize to 2x5, zero, column 0, then the four single entries.\<close>

definition jacobian_intrinsics :: "real \<Rightarrow> real \<Rightarrow> real \<Rightarrow> real \<Rightarrow> vec2 \<Rightarrow> mat2 \<Rightarrow> mat2X" where
  "jacobian_intrinsics f_u f_v d rz kp J_distortion =
     (let row0 = replicate kNumOfParams 0;
          row1 = replicate kNumOfParams 0;
          Jxi = (- fst kp * d * rz, - snd kp * d * rz);
          J_distortion = scale_rows2 f_u f_v J_distortion;
          col0 = mat2_times_vec J_distortion Jxi;
          row0 = row0[0 := fst col0];
          row1 = row1[0 := snd col0];
          row0 = row0[1 := fst kp];
          row0 = row0[3 := 1];
          row1 = row1[2 := snd kp];
          row1 = row1[4 := 1]
      in (row0, row1))"

text \<open>Lines 218 to 224; the coefficient pointer handed over is the external one.\<close>

definition jacobian_distortion ::
  "distortion option \<Rightarrow> real list option \<Rightarrow> real \<Rightarrow> real \<Rightarrow> vec2 \<Rightarrow> mat2X option
     \<Rightarrow> mat2X option" where
  "jacobian_distortion dopt distortion_coefficients_external f_u f_v kp out_jacobian_distortion =
     (case (dopt, out_jacobian_distortion) of
        (Some dm, Some _) \<Rightarrow>
          Some (scale_rowsX f_u f_v
                  (distortParameterJacobian dm distortion_coefficients_external kp))
      | _ \<Rightarrow> out_jacobian_distortion)"

record projection_outputs =
  out_keypoint :: vec2
  out_jacobian_point :: "mat23 option"
  out_jacobian_intrinsics :: "mat2X option"
  out_jacobian_distortion :: "mat2X option"

definition project3Functional ::
  "camera \<Rightarrow> vec3 \<Rightarrow> real list option \<Rightarrow> real list option \<Rightarrow> vec2 option \<Rightarrow> mat23 option
     \<Rightarrow> mat2X option \<Rightarrow> mat2X option \<Rightarrow> error + Status \<times> projection_outputs" where
  "project3Functional c point_3d intrinsics_external distortion_coefficients_external
       keypoint_ptr jacobian_point_ptr jacobian_intrinsics_ptr jacobian_distortion_ptr =
     (case keypoint_ptr of
        None \<Rightarrow> Inl CheckFailed
      | Some _ \<Rightarrow>
          let intr = (case intrinsics_external of None \<Rightarrow> getParameters c | Some v \<Rightarrow> v)
          in if length intr \<noteq> kNumOfParams then Inl CheckFailed
             else
               let distortion_coefficients =
                     resolve_distortion_coefficients c distortion_coefficients_external;
                   x_i = intr ! 0; f_u = intr ! 1; f_v = intr ! 2;
                   c_u = intr ! 3; c_v = intr ! 4;
                   (x, y, z) = point_3d;
                   d = norm3 point_3d;
                   rz = 1 / (z + x_i * d);
                   valid_proj = (z > - (fov_parameter x_i * d))
               in if \<not> valid_proj
                  then Inr (PROJECTION_INVALID,
                            \<lparr>out_keypoint = (0, 0),
                             out_jacobian_point = jacobian_point_ptr,
                             out_jacobian_intrinsics = jacobian_intrinsics_ptr,
                             out_jacobian_distortion = jacobian_distortion_ptr\<rparr>)
                  else
                    let kp = (x * rz, y * rz);
                        (kp, J_distortion) =
                          distort_keypoint (distortion_ptr c) distortion_coefficients
                            (jacobian_point_ptr \<noteq> None) kp;
                        J_point =
                          (case jacobian_point_ptr of
                             None \<Rightarrow> None
                           | Some _ \<Rightarrow>
                               Some (jacobian_point x_i f_u f_v point_3d d rz J_distortion));
                        J_intrinsics =
                          (case jacobian_intrinsics_ptr of
                             None \<Rightarrow> None
                           | Some _ \<Rightarrow> Some (jacobian_intrinsics f_u f_v d rz kp J_distortion));
                        J_dist =
                          jacobian_distortion (distortion_ptr c) distortion_coefficients_external
                            f_u f_v kp jacobian_distortion_ptr;
                        kp = (f_u * fst kp + c_u, f_v * snd kp + c_v)
                    in Inr (evaluateProjectionResult c kp point_3d,
                            \<lparr>out_keypoint = kp,
                             out_jacobian_point = J_point,
                             out_jacobian_intrinsics = J_intrinsics,
                             out_jacobian_distortion = J_dist\<rparr>))"

subsection \<open>Random sampling\<close>

text \<open>
  The body of the loop of \<^verbatim>\<open>createRandomKeypoint\<close> up to the affine step. The global random
  source is made an argument: one draw is the vector that \<^verbatim>\<open>setRandom\<close> stores and the
  quotient \<^verbatim>\<open>rand() / RAND_MAX\<close>, both finite.
\<close>

type_synonym draw = "vec2 \<times> real"

definition randomCandidate :: "camera \<Rightarrow> draw \<Rightarrow> xvec2" where
  "randomCandidate c dr =
     (let one_over_xixi_m_1 = xdiv 1 (xi c * xi c - 1);
          u = fst dr;
          u = (fst u - 1 / 2, snd u - 1 / 2);
          n = norm2 u;
          u = (xdiv (fst u) n, xdiv (snd u) n);
          s = xmul (Fin (snd dr)) one_over_xixi_m_1;
          u = (xmul (fst u) s, xmul (snd u) s);
          u = (case distortion_ptr c of None \<Rightarrow> u | Some dm \<Rightarrow> distort dm u)
      in (xadd (xmul (Fin (fu c)) (fst u)) (Fin (cu c)),
          xadd (xmul (Fin (fv c)) (snd u)) (Fin (cv c))))"

text \<open>
  The negated condition of the loop, \<^verbatim>\<open>isLiftable(u) && isKeypointVisible(u)\<close>. A
  comparison with NaN is false and no infinity lies in \<open>[0, width)\<close>, so a keypoint with
  a coordinate that is not finite is outside the image box and the conjunction is false
  whatever \<open>isLiftable\<close> returns for it.
\<close>

definition keypointAccepted :: "camera \<Rightarrow> xvec2 \<Rightarrow> bool" where
  "keypointAccepted c u =
     (case u of
        (Fin a, Fin b) \<Rightarrow> isLiftable c (a, b) \<and> isKeypointVisible c (a, b)
      | _ \<Rightarrow> False)"

text \<open>
  The loop: \<open>max_tries\<close> is the counter of the source and falls with every call, which
  bounds the loop. \<open>i\<close> counts the draws taken from the random source so far; the count is
  returned with the keypoint, as the state the function leaves the source in.
\<close>

function createRandomKeypoint_loop ::
  "camera \<Rightarrow> (nat \<Rightarrow> draw) \<Rightarrow> nat \<Rightarrow> int \<Rightarrow> xvec2 \<Rightarrow> xvec2 \<times> nat" where
  "createRandomKeypoint_loop c draws i max_tries u =
     (if keypointAccepted c u then (u, i)
      else
        let u' = randomCandidate c (draws i);
            max_tries' = max_tries - 1
        in if max_tries' < 1 then ((Fin (cu c), Fin (cv c)), Suc i)
           else createRandomKeypoint_loop c draws (Suc i) max_tries' u')"
  by pat_completeness auto
termination
  by (relation "measure (\<lambda>(c, draws, i, max_tries, u). nat max_tries)") auto

definition createRandomKeypoint :: "camera \<Rightarrow> (nat \<Rightarrow> draw) \<Rightarrow> xvec2 \<times> nat" where
  "createRandomKeypoint c draws =
     createRandomKeypoint_loop c draws 0 10 (Fin (imageWidth c + 1), Fin (imageHeight c + 1))"

subsection \<open>Inputs for the examples\<close>

text \<open>The camera that \<^verbatim>\<open>createTestCamera()\<close> builds.\<close>

definition testcam :: camera where
  "testcam =
     \<lparr>intrinsics = [9 / 10, 400, 400, 320, 240], image_width = 640, image_height = 480,
      distortion_ptr = None\<rparr>"

text \<open>A camera with mirror parameter 2, where the liftable disk is bounded.\<close>

definition mirrorcam :: camera where
  "mirrorcam =
     \<lparr>intrinsics = [2, 1, 1, 1, 1], image_width = 4, image_height = 4, distortion_ptr = None\<rparr>"

text \<open>
  A distortion to run the examples with: it multiplies a point by its one coefficient, so
  its Jacobian is that coefficient times the identity, and its parameter Jacobian has one
  column for each coefficient of the vector it is handed (none for a null pointer).
\<close>

definition scaling_distortion :: "real \<Rightarrow> distortion" where
  "scaling_distortion k =
     \<lparr>dist_getParameters = [k],
      undistort = (\<lambda>p. (fst p / k, snd p / k)),
      distort = (\<lambda>p. (xmul (Fin k) (fst p), xmul (Fin k) (snd p))),
      distortUsingExternalCoefficients =
        (\<lambda>coeffs p want.
           case coeffs of
             Some (k' # _) \<Rightarrow> ((k' * fst p, k' * snd p), ((k', 0), (0, k')))
           | _ \<Rightarrow> (p, Identity2)),
      distortParameterJacobian =
        (\<lambda>coeffs p.
           case coeffs of
             Some ks \<Rightarrow> (map (\<lambda>_. fst p) ks, map (\<lambda>_. snd p) ks)
           | None \<Rightarrow> ([], []))\<rparr>"

text \<open>A camera with mirror parameter 1, where \<open>xi * xi - 1\<close> is zero.\<close>

definition unitcam :: camera where
  "unitcam =
     \<lparr>intrinsics = [1, 400, 400, 320, 240], image_width = 640, image_height = 480,
      distortion_ptr = None\<rparr>"

definition distcam :: camera where
  "distcam =
     \<lparr>intrinsics = [1, 100, 100, 100, 100], image_width = 200, image_height = 200,
      distortion_ptr = Some (scaling_distortion 2)\<rparr>"

section \<open>The two validity flags in binary64 arithmetic\<close>

text \<open>
  \<open>backProject3\<close> undoes the affine step as \<^verbatim>\<open>(kp[0] - cu()) / fu()\<close> and \<open>isLiftable\<close> as
  \<^verbatim>\<open>1.0/fu() * (keypoint[0] - cu())\<close>. The two are the same real number and need not be
  the same \<^verbatim>\<open>double\<close>, so for these two functions the rounding is written out. A binary64
  number is a rational here, and \<open>fl\<close> rounds a rational to the nearest number with a
  53-bit significand, ties to the even significand. That is the result of an IEEE 754
  operation whenever the result is a normal number; infinities, NaN, signed zero and
  subnormal numbers are left out.
\<close>

definition round_half_even :: "rat \<Rightarrow> int" where
  "round_half_even q =
     (let f = \<lfloor>q\<rfloor>; r = q - of_int f
      in if r < 1 / 2 then f else if r > 1 / 2 then f + 1 else if even f then f else f + 1)"

text \<open>The exponent \<open>e\<close> with \<open>2\<^sup>e \<le> \<bar>q\<bar> < 2\<^sup>e\<^sup>+\<^sup>1\<close>, for \<open>q \<noteq> 0\<close>.\<close>

definition binade :: "rat \<Rightarrow> int" where
  "binade q =
     (let (n, d) = quotient_of \<bar>q\<bar>; e = bitlen n - bitlen d
      in if 2 powi e \<le> \<bar>q\<bar> then e else e - 1)"

definition fl :: "rat \<Rightarrow> rat" where
  "fl q =
     (if q = 0 then 0
      else let ulp = 2 powi (binade q - 52) in of_int (round_half_even (q / ulp)) * ulp)"

definition fadd :: "rat \<Rightarrow> rat \<Rightarrow> rat" where "fadd a b = fl (a + b)"
definition fsub :: "rat \<Rightarrow> rat \<Rightarrow> rat" where "fsub a b = fl (a - b)"
definition fmul :: "rat \<Rightarrow> rat \<Rightarrow> rat" where "fmul a b = fl (a * b)"
definition fdiv :: "rat \<Rightarrow> rat \<Rightarrow> rat" where "fdiv a b = fl (a / b)"

text \<open>A normal binary64 number, or zero: 53 bits and an exponent from -1022 to 1023.\<close>

definition is_binary64 :: "rat \<Rightarrow> bool" where
  "is_binary64 q =
     (q = 0 \<or> (fl q = q \<and> - 1022 \<le> binade q \<and> binade q \<le> 1023))"

record camera64 =
  intrinsics64 :: "rat list"
  undistort64 :: "(rat \<times> rat \<Rightarrow> rat \<times> rat) option"

definition isUndistortedKeypointValid64 :: "rat \<Rightarrow> rat \<Rightarrow> bool" where
  "isUndistortedKeypointValid64 rho2_d x = (x \<le> 1 \<or> rho2_d \<le> fdiv 1 (fsub (fmul x x) 1))"

definition isLiftable64 :: "camera64 \<Rightarrow> rat \<times> rat \<Rightarrow> bool" where
  "isLiftable64 c keypoint =
     (let v = intrinsics64 c;
          y = (fmul (fdiv 1 (v ! 1)) (fsub (fst keypoint) (v ! 3)),
               fmul (fdiv 1 (v ! 2)) (fsub (snd keypoint) (v ! 4)));
          y = (case undistort64 c of None \<Rightarrow> y | Some undist \<Rightarrow> undist y);
          rho2_d = fadd (fmul (fst y) (fst y)) (fmul (snd y) (snd y))
      in isUndistortedKeypointValid64 rho2_d (v ! 0))"

text \<open>
  The value \<open>backProject3\<close> returns. Its stores to \<^verbatim>\<open>out_point_3d\<close> have no part in the
  flag and are left out.
\<close>

definition backProject3_flag64 :: "camera64 \<Rightarrow> rat \<times> rat \<Rightarrow> bool" where
  "backProject3_flag64 c keypoint =
     (let v = intrinsics64 c;
          kp = (fdiv (fsub (fst keypoint) (v ! 3)) (v ! 1),
                fdiv (fsub (snd keypoint) (v ! 4)) (v ! 2));
          kp = (case undistort64 c of None \<Rightarrow> kp | Some undist \<Rightarrow> undist kp);
          rho2_d = fadd (fmul (fst kp) (fst kp)) (fmul (snd kp) (snd kp))
      in isUndistortedKeypointValid64 rho2_d (v ! 0))"

text \<open>A camera with mirror parameter 1.25, in both models.\<close>

definition edgecam64 :: camera64 where
  "edgecam64 = \<lparr>intrinsics64 = [5 / 4, 75, 75, 320, 240], undistort64 = None\<rparr>"

text \<open>A camera with mirror parameter 2, for a keypoint next to the rim of its liftable disk.\<close>

definition rimcam64 :: camera64 where
  "rimcam64 = \<lparr>intrinsics64 = [2, 694, 694, 225, 225], undistort64 = None\<rparr>"

definition edgecam :: camera where
  "edgecam =
     \<lparr>intrinsics = [5 / 4, 75, 75, 320, 240], image_width = 640, image_height = 480,
      distortion_ptr = None\<rparr>"

section \<open>Helper facts\<close>

declare createRandomKeypoint_loop.simps [simp del]

lemma gate_denominator_positive:
  fixes k z d :: real
  assumes "0 \<le> d" and "z > - (fov_parameter k * d)"
  shows "0 < z + k * d"
proof (cases "k \<le> 1")
  case True
  with assms(2) show ?thesis
    by (simp add: fov_parameter_def)
next
  case False
  then have "1 \<le> k * k"
    using mult_mono [of 1 k 1 k] by simp
  with False have "1 / k \<le> k"
    by (simp add: divide_le_eq)
  then have "1 / k * d \<le> k * d"
    using assms(1) by (rule mult_right_mono)
  moreover from False assms(2) have "- (1 / k * d) < z"
    by (simp add: fov_parameter_def)
  ultimately show ?thesis
    by linarith
qed

lemma jacobian_intrinsics_entries:
  "jacobian_intrinsics f_u f_v d rz kp J =
     (let col0 = mat2_times_vec (scale_rows2 f_u f_v J) (- fst kp * d * rz, - snd kp * d * rz)
      in ([fst col0, fst kp, 0, 1, 0], [snd col0, 0, snd kp, 0, 1]))"
  by (simp add: jacobian_intrinsics_def Let_def kNumOfParams_def numeral_eq_Suc)

text \<open>What the forward projection returns once the size check and the gate have passed.\<close>

lemma project3Functional_valid_unfold:
  fixes c :: camera and intrinsics_external distortion_coefficients_external :: "real list option"
    and x y z :: real and jp :: "mat23 option"
  defines "intr \<equiv> (case intrinsics_external of None \<Rightarrow> getParameters c | Some v \<Rightarrow> v)"
  defines "rz \<equiv> 1 / (z + intr ! 0 * norm3 (x, y, z))"
  defines "kJ \<equiv> distort_keypoint (distortion_ptr c)
                (resolve_distortion_coefficients c distortion_coefficients_external)
                (jp \<noteq> None) (x * rz, y * rz)"
  assumes len: "length intr = 5"
    and gate: "z > - (fov_parameter (intr ! 0) * norm3 (x, y, z))"
  shows "project3Functional c (x, y, z) intrinsics_external distortion_coefficients_external
           (Some kp0) jp ji jd =
         Inr (evaluateProjectionResult c
                (intr ! 1 * fst (fst kJ) + intr ! 3, intr ! 2 * snd (fst kJ) + intr ! 4) (x, y, z),
              \<lparr>out_keypoint =
                 (intr ! 1 * fst (fst kJ) + intr ! 3, intr ! 2 * snd (fst kJ) + intr ! 4),
               out_jacobian_point =
                 (case jp of None \<Rightarrow> None
                  | Some _ \<Rightarrow> Some (jacobian_point (intr ! 0) (intr ! 1) (intr ! 2) (x, y, z)
                                     (norm3 (x, y, z)) rz (snd kJ))),
               out_jacobian_intrinsics =
                 (case ji of None \<Rightarrow> None
                  | Some _ \<Rightarrow> Some (jacobian_intrinsics (intr ! 1) (intr ! 2)
                                     (norm3 (x, y, z)) rz (fst kJ) (snd kJ))),
               out_jacobian_distortion =
                 jacobian_distortion (distortion_ptr c) distortion_coefficients_external
                   (intr ! 1) (intr ! 2) (fst kJ) jd\<rparr>)"
proof -
  have "\<not> length intr \<noteq> kNumOfParams"
    using len by (simp add: kNumOfParams_def)
  moreover have "\<not> \<not> z > - (fov_parameter (intr ! 0) * norm3 (x, y, z))"
    using gate by simp
  ultimately show ?thesis
    unfolding project3Functional_def Let_def intr_def [symmetric] rz_def kJ_def
    by (simp add: split_beta del: not_None_eq cong: option.case_cong)
qed

text \<open>
  The intrinsics Jacobian as the code computes it: the matrix applied in column 0 is the
  one \<open>distort_keypoint\<close> returns, which is the identity unless the camera has a distortion
  and the point Jacobian is requested too.
\<close>

lemma project3Functional_intrinsics_jacobian:
  fixes c :: camera and intrinsics_external distortion_coefficients_external :: "real list option"
    and x y z :: real and jp :: "mat23 option"
  defines "intr \<equiv> (case intrinsics_external of None \<Rightarrow> getParameters c | Some v \<Rightarrow> v)"
  defines "d \<equiv> norm3 (x, y, z)"
  defines "rz \<equiv> 1 / (z + intr ! 0 * d)"
  defines "kJ \<equiv> distort_keypoint (distortion_ptr c)
                (resolve_distortion_coefficients c distortion_coefficients_external)
                (jp \<noteq> None) (x * rz, y * rz)"
  defines "col0 \<equiv> mat2_times_vec (scale_rows2 (intr ! 1) (intr ! 2) (snd kJ))
                    (- fst (fst kJ) * d * rz, - snd (fst kJ) * d * rz)"
  assumes len: "length intr = 5"
    and gate: "z > - (fov_parameter (intr ! 0) * d)"
    and res: "project3Functional c (x, y, z) intrinsics_external
                distortion_coefficients_external (Some kp0) jp (Some ji0) jd = Inr (st, outs)"
  shows "out_jacobian_intrinsics outs =
           Some ([fst col0, fst (fst kJ), 0, 1, 0], [snd col0, 0, snd (fst kJ), 0, 1])"
  using res
  unfolding project3Functional_valid_unfold
      [OF len [unfolded intr_def] gate [unfolded intr_def d_def]]
    col0_def kJ_def rz_def d_def intr_def
  by (auto simp: jacobian_intrinsics_entries Let_def)

text \<open>
  The distortion Jacobian as the code computes it: the coefficient pointer handed to the
  distortion is the external one, also when it is null.
\<close>

lemma project3Functional_distortion_jacobian:
  fixes c :: camera and intrinsics_external distortion_coefficients_external :: "real list option"
    and x y z :: real and jp :: "mat23 option"
  defines "intr \<equiv> (case intrinsics_external of None \<Rightarrow> getParameters c | Some v \<Rightarrow> v)"
  defines "rz \<equiv> 1 / (z + intr ! 0 * norm3 (x, y, z))"
  defines "kJ \<equiv> distort_keypoint (distortion_ptr c)
                (resolve_distortion_coefficients c distortion_coefficients_external)
                (jp \<noteq> None) (x * rz, y * rz)"
  assumes len: "length intr = 5"
    and gate: "z > - (fov_parameter (intr ! 0) * norm3 (x, y, z))"
    and dist: "distortion_ptr c = Some dm"
    and res: "project3Functional c (x, y, z) intrinsics_external
                distortion_coefficients_external (Some kp0) jp ji (Some jd0) = Inr (st, outs)"
  shows "out_jacobian_distortion outs =
           Some (scale_rowsX (intr ! 1) (intr ! 2)
                   (distortParameterJacobian dm distortion_coefficients_external (fst kJ)))"
  using res dist
  unfolding project3Functional_valid_unfold
      [OF len [unfolded intr_def] gate [unfolded intr_def]]
    kJ_def rz_def intr_def
  by (auto simp: jacobian_distortion_def)

lemma xmul_Fin_iff: "xmul x y = Fin v \<longleftrightarrow> (\<exists>a b. x = Fin a \<and> y = Fin b \<and> v = a * b)"
  by (cases x; cases y) auto

lemma xadd_Fin_iff: "xadd x y = Fin v \<longleftrightarrow> (\<exists>a b. x = Fin a \<and> y = Fin b \<and> v = a + b)"
  by (cases x; cases y) auto

lemma keypointAccepted_Fin:
  "keypointAccepted c u \<longleftrightarrow>
     (\<exists>a b. u = (Fin a, Fin b) \<and> isLiftable c (a, b) \<and> isKeypointVisible c (a, b))"
  by (auto simp: keypointAccepted_def split: prod.splits xreal.splits)

text \<open>The keypoint the loop starts from is outside the image box.\<close>

lemma start_not_accepted:
  "\<not> keypointAccepted c (Fin (imageWidth c + 1), Fin (imageHeight c + 1))"
  by (simp add: keypointAccepted_def isKeypointVisible_def)

text \<open>
  Without a distortion, a division by zero leaves a first coordinate that is not finite,
  and the candidate is rejected.
\<close>

lemma randomCandidate_division_by_zero:
  assumes "distortion_ptr c = None"
    and "xi c * xi c - 1 = 0 \<or> fst dr = (1 / 2, 1 / 2)"
  shows "\<not> keypointAccepted c (randomCandidate c dr)"
proof -
  let ?s = "xmul (Fin (snd dr)) (xdiv 1 (xi c * xi c - 1))"
  let ?n = "norm2 (fst (fst dr) - 1 / 2, snd (fst dr) - 1 / 2)"
  have "xmul (xdiv (fst (fst dr) - 1 / 2) ?n) ?s \<noteq> Fin v" for v
  proof (cases "xi c * xi c - 1 = 0")
    case True
    then have "?s \<noteq> Fin b" for b
      by (simp add: xdiv_def)
    then show ?thesis
      by (simp add: xmul_Fin_iff)
  next
    case False
    with assms(2) have "fst dr = (1 / 2, 1 / 2)"
      by simp
    then have "xdiv (fst (fst dr) - 1 / 2) ?n = NaN"
      by (simp add: xdiv_def norm2_def)
    then show ?thesis
      by simp
  qed
  then have nonfin: "fst (randomCandidate c dr) \<noteq> Fin a" for a
    using assms(1) by (simp add: randomCandidate_def Let_def xadd_Fin_iff xmul_Fin_iff)
  show ?thesis
  proof
    assume "keypointAccepted c (randomCandidate c dr)"
    then obtain a b where "randomCandidate c dr = (Fin a, Fin b)"
      by (auto simp: keypointAccepted_Fin)
    then have "fst (randomCandidate c dr) = Fin a"
      by simp
    with nonfin show False
      by blast
  qed
qed

lemma createRandomKeypoint_loop_accept:
  "keypointAccepted c u \<Longrightarrow> createRandomKeypoint_loop c draws i max_tries u = (u, i)"
  by (subst createRandomKeypoint_loop.simps) simp

lemma createRandomKeypoint_loop_exhaust:
  "\<not> keypointAccepted c u \<Longrightarrow> max_tries - 1 < 1 \<Longrightarrow>
   createRandomKeypoint_loop c draws i max_tries u = ((Fin (cu c), Fin (cv c)), Suc i)"
  by (subst createRandomKeypoint_loop.simps) (auto simp: Let_def)

lemma createRandomKeypoint_loop_retry:
  "\<not> keypointAccepted c u \<Longrightarrow> \<not> max_tries - 1 < 1 \<Longrightarrow>
   createRandomKeypoint_loop c draws i max_tries u =
   createRandomKeypoint_loop c draws (Suc i) (max_tries - 1) (randomCandidate c (draws i))"
  by (subst createRandomKeypoint_loop.simps) (auto simp: Let_def)

text \<open>
  The loop returns the first accepted candidate, if it comes while the counter allows
  another test.
\<close>

lemma createRandomKeypoint_loop_first_accepted:
  assumes "\<not> keypointAccepted c u"
    and "i \<le> k" and "int (k - i) < max_tries - 1"
    and "\<And>j. i \<le> j \<Longrightarrow> j < k \<Longrightarrow> \<not> keypointAccepted c (randomCandidate c (draws j))"
    and "keypointAccepted c (randomCandidate c (draws k))"
  shows "createRandomKeypoint_loop c draws i max_tries u = (randomCandidate c (draws k), Suc k)"
  using assms
proof (induction c draws i max_tries u rule: createRandomKeypoint_loop.induct)
  case (1 c draws i max_tries u)
  from "1.prems"(3) have stay: "\<not> max_tries - 1 < 1"
    by linarith
  note step = createRandomKeypoint_loop_retry [OF "1.prems"(1) stay]
  show ?case
  proof (cases "k = i")
    case True
    with "1.prems"(5) show ?thesis
      by (simp add: step createRandomKeypoint_loop_accept)
  next
    case False
    with "1.prems"(2) have less: "i < k"
      by simp
    have "createRandomKeypoint_loop c draws (Suc i) (max_tries - 1)
            (randomCandidate c (draws i)) = (randomCandidate c (draws k), Suc k)"
    proof (rule "1.IH" [OF "1.prems"(1) refl refl stay])
      show "\<not> keypointAccepted c (randomCandidate c (draws i))"
        using less by (intro "1.prems"(4)) simp_all
      show "Suc i \<le> k"
        using less by simp
      show "int (k - Suc i) < max_tries - 1 - 1"
        using "1.prems"(3) less by linarith
      show "\<not> keypointAccepted c (randomCandidate c (draws j))" if "Suc i \<le> j" "j < k" for j
        using that by (intro "1.prems"(4)) simp_all
      show "keypointAccepted c (randomCandidate c (draws k))"
        by (rule "1.prems"(5))
    qed
    then show ?thesis
      by (simp add: step)
  qed
qed

text \<open>
  When every candidate that is tested is rejected, the loop takes \<open>max_tries\<close> draws and
  returns the principal point; the candidate of the last draw is not tested.
\<close>

lemma createRandomKeypoint_loop_exhausted:
  assumes "\<not> keypointAccepted c u"
    and "1 \<le> max_tries"
    and "\<And>j. i \<le> j \<Longrightarrow> int (j - i) < max_tries - 1 \<Longrightarrow>
           \<not> keypointAccepted c (randomCandidate c (draws j))"
  shows "createRandomKeypoint_loop c draws i max_tries u =
           ((Fin (cu c), Fin (cv c)), i + nat max_tries)"
  using assms
proof (induction c draws i max_tries u rule: createRandomKeypoint_loop.induct)
  case (1 c draws i max_tries u)
  show ?case
  proof (cases "max_tries - 1 < 1")
    case True
    with "1.prems"(2) have "max_tries = 1"
      by simp
    with "1.prems"(1) show ?thesis
      by (simp add: createRandomKeypoint_loop_exhaust)
  next
    case stay: False
    have "createRandomKeypoint_loop c draws (Suc i) (max_tries - 1)
            (randomCandidate c (draws i)) =
          ((Fin (cu c), Fin (cv c)), Suc i + nat (max_tries - 1))"
    proof (rule "1.IH" [OF "1.prems"(1) refl refl stay])
      show "\<not> keypointAccepted c (randomCandidate c (draws i))"
        using stay by (intro "1.prems"(3)) simp_all
      show "1 \<le> max_tries - 1"
        using stay by simp
      show "\<not> keypointAccepted c (randomCandidate c (draws j))"
        if "Suc i \<le> j" "int (j - Suc i) < max_tries - 1 - 1" for j
        using that by (intro "1.prems"(3)) linarith+
    qed
    moreover have "Suc i + nat (max_tries - 1) = i + nat max_tries"
      using stay by linarith
    ultimately show ?thesis
      by (simp add: createRandomKeypoint_loop_retry [OF "1.prems"(1) stay])
  qed
qed

lemma createRandomKeypoint_loop_result:
  "keypointAccepted c (fst (createRandomKeypoint_loop c draws i max_tries u)) \<or>
   fst (createRandomKeypoint_loop c draws i max_tries u) = (Fin (cu c), Fin (cv c))"
proof (induction c draws i max_tries u rule: createRandomKeypoint_loop.induct)
  case (1 c draws i max_tries u)
  show ?case
  proof (cases "keypointAccepted c u")
    case True
    then show ?thesis
      by (simp add: createRandomKeypoint_loop_accept)
  next
    case False
    show ?thesis
    proof (cases "max_tries - 1 < 1")
      case True
      with False show ?thesis
        by (simp add: createRandomKeypoint_loop_exhaust)
    next
      case stay: False
      from "1.IH" [OF False refl refl stay] show ?thesis
        by (simp only: createRandomKeypoint_loop_retry [OF False stay])
    qed
  qed
qed

text \<open>The loop reads the draws \<open>i\<close> to \<open>i + max_tries - 1\<close> at most.\<close>

lemma createRandomKeypoint_loop_draws:
  "(\<And>j. i \<le> j \<Longrightarrow> j < i + nat (max max_tries 1) \<Longrightarrow> draws j = draws' j) \<Longrightarrow>
   createRandomKeypoint_loop c draws i max_tries u =
   createRandomKeypoint_loop c draws' i max_tries u"
proof (induction c draws i max_tries u rule: createRandomKeypoint_loop.induct)
  case (1 c draws i max_tries u)
  have here: "draws i = draws' i"
    by (rule "1.prems") simp_all
  show ?case
  proof (cases "keypointAccepted c u")
    case True
    then show ?thesis
      by (simp add: createRandomKeypoint_loop_accept)
  next
    case False
    show ?thesis
    proof (cases "max_tries - 1 < 1")
      case True
      with False show ?thesis
        by (simp add: createRandomKeypoint_loop_exhaust)
    next
      case stay: False
      have "createRandomKeypoint_loop c draws (Suc i) (max_tries - 1)
              (randomCandidate c (draws i)) =
            createRandomKeypoint_loop c draws' (Suc i) (max_tries - 1)
              (randomCandidate c (draws i))"
      proof (rule "1.IH" [OF False refl refl stay])
        fix j
        assume "Suc i \<le> j" and "j < Suc i + nat (max (max_tries - 1) 1)"
        with stay show "draws j = draws' j"
          by (intro "1.prems") auto
      qed
      then show ?thesis
        by (simp add: createRandomKeypoint_loop_retry [OF False stay] here)
    qed
  qed
qed

text \<open>
  With \<open>xi \<ge> 0\<close>, as the constructor checks, the denominator of the third component of the
  bearing vector is positive.
\<close>

lemma backProject3_denominator_positive:
  fixes k u v :: real
  assumes "0 \<le> k"
  shows "0 < k + sqrt (max (1 + (1 - k * k) * (u * u + v * v)) 0)"
proof (cases "k = 0")
  case True
  have "0 \<le> u * u + v * v"
    by simp
  then have "0 < max (1 + (u * u + v * v)) 0"
    by linarith
  then have "0 < sqrt (max (1 + (u * u + v * v)) 0)"
    by (simp only: real_sqrt_gt_0_iff)
  with True show ?thesis
    by simp
next
  case False
  have "0 \<le> sqrt (max (1 + (1 - k * k) * (u * u + v * v)) 0)"
    by simp
  with False assms show ?thesis
    by linarith
qed

text \<open>In exact arithmetic the flag of \<open>backProject3\<close> is \<open>isLiftable\<close>.\<close>

lemma backProject3_flag_isLiftable_exact:
  "backProject3 c kp (Some out_old) = Inr (flag, point_3d) \<Longrightarrow> flag = isLiftable c kp"
  by (auto simp: backProject3_def isLiftable_def Let_def)

text \<open>
  What \<open>fl\<close> is: \<open>binade\<close> is the exponent of its argument, the result is an integer
  of 53 bits times \<open>2\<close> to the exponent less 52, it is within half a unit in the last place,
  and a tie goes to the even integer.
\<close>

lemma round_half_even_error: "\<bar>of_int (round_half_even x) - x\<bar> \<le> 1 / 2"
proof -
  have "of_int \<lfloor>x\<rfloor> \<le> x" "x < of_int \<lfloor>x\<rfloor> + 1"
    by linarith+
  then show ?thesis
    unfolding round_half_even_def Let_def by (simp add: abs_le_iff)
qed

lemma powi_nat: "0 \<le> k \<Longrightarrow> (2::rat) powi k = 2 ^ nat k"
  by (simp add: power_int_def)

lemma powi_diff: "(2::rat) powi (a - b) = 2 powi a / 2 powi b"
  by (simp add: power_int_diff)

lemma binade_bounds:
  assumes "q \<noteq> 0"
  shows "2 powi binade q \<le> \<bar>q\<bar> \<and> \<bar>q\<bar> < 2 powi (binade q + 1)"
proof -
  obtain n d where nd: "quotient_of \<bar>q\<bar> = (n, d)"
    by force
  have d: "0 < d"
    using nd by (rule quotient_of_denom_pos)
  have q: "\<bar>q\<bar> = of_int n / of_int d"
    using nd by (rule quotient_of_div)
  have "0 < \<bar>q\<bar>"
    using assms by simp
  then have "0 < (of_int n :: rat)"
    using d unfolding q by (simp add: zero_less_divide_iff)
  then have n: "0 < n"
    by simp
  let ?bn = "bitlen n" and ?bd = "bitlen d"
  have bn: "1 \<le> ?bn" and bd: "1 \<le> ?bd"
    using n d by (auto simp: bitlen_alt_def)
  from bitlen_bounds [OF n] have "(of_int (2 ^ nat (?bn - 1)) :: rat) \<le> of_int n"
    and "(of_int n :: rat) < of_int (2 ^ nat ?bn)"
    by (simp_all only: of_int_le_iff of_int_less_iff)
  then have n1: "2 powi (?bn - 1) \<le> (of_int n :: rat)" and n2: "(of_int n :: rat) < 2 powi ?bn"
    using bn by (simp_all add: powi_nat)
  from bitlen_bounds [OF d] have "(of_int (2 ^ nat (?bd - 1)) :: rat) \<le> of_int d"
    and "(of_int d :: rat) < of_int (2 ^ nat ?bd)"
    by (simp_all only: of_int_le_iff of_int_less_iff)
  then have d1: "2 powi (?bd - 1) \<le> (of_int d :: rat)" and d2: "(of_int d :: rat) < 2 powi ?bd"
    using bd by (simp_all add: powi_nat)
  have dpos: "0 < (of_int d :: rat)"
    using d by simp
  have "\<bar>q\<bar> < 2 powi ?bn / 2 powi (?bd - 1)"
    unfolding q using n2 d1 n
    by (intro frac_less) simp_all
  also have "\<dots> = 2 powi (?bn - ?bd + 1)"
    by (simp add: power_int_diff power_int_add)
  finally have up: "\<bar>q\<bar> < 2 powi (?bn - ?bd + 1)" .
  have "2 powi (?bn - 1) / 2 powi ?bd \<le> \<bar>q\<bar>"
    unfolding q using n1 d2 dpos n
    by (intro frac_le) simp_all
  also have "2 powi (?bn - 1) / 2 powi ?bd = (2::rat) powi (?bn - ?bd - 1)"
    by (simp add: power_int_diff)
  finally have low: "2 powi (?bn - ?bd - 1) \<le> \<bar>q\<bar>" .
  show ?thesis
    using up low by (auto simp: binade_def nd Let_def not_le)
qed


lemma fl_error:
  assumes "q \<noteq> 0"
  shows "\<bar>fl q - q\<bar> \<le> 2 powi (binade q - 53)"
proof -
  let ?ulp = "(2::rat) powi (binade q - 52)"
  have pos: "0 < ?ulp"
    by simp
  have "fl q - q = (of_int (round_half_even (q / ?ulp)) - q / ?ulp) * ?ulp"
    using assms by (simp add: fl_def Let_def left_diff_distrib)
  then have "\<bar>fl q - q\<bar> = \<bar>of_int (round_half_even (q / ?ulp)) - q / ?ulp\<bar> * ?ulp"
    by (simp add: abs_mult)
  also have "\<dots> \<le> 1 / 2 * ?ulp"
    using round_half_even_error [of "q / ?ulp"] pos by (intro mult_right_mono) simp_all
  also have "1 / 2 * ?ulp = 2 powi (binade q - 53)"
    by (simp add: power_int_diff)
  finally show ?thesis .
qed

lemma fl_significand:
  assumes "q \<noteq> 0"
  shows "\<exists>m. fl q = of_int m * 2 powi (binade q - 52) \<and> 2 ^ 52 \<le> \<bar>m\<bar> \<and> \<bar>m\<bar> \<le> 2 ^ 53"
proof -
  let ?ulp = "(2::rat) powi (binade q - 52)"
  let ?x = "q / ?ulp"
  let ?m = "round_half_even ?x"
  have pos: "0 < ?ulp"
    by simp
  have "\<bar>?x\<bar> = \<bar>q\<bar> / ?ulp"
    by (simp add: abs_divide)
  moreover have "2 powi binade q / ?ulp = 2 ^ 52" "2 powi (binade q + 1) / ?ulp = 2 ^ 53"
    by (simp_all add: power_int_diff power_int_add)
  ultimately have x: "2 ^ 52 \<le> \<bar>?x\<bar>" "\<bar>?x\<bar> < 2 ^ 53"
    using binade_bounds [OF assms] pos
    by (metis divide_right_mono less_imp_le, metis divide_strict_right_mono)
  have near: "\<bar>of_int ?m - ?x\<bar> \<le> 1 / 2"
    by (rule round_half_even_error)
  have "(2::rat) ^ 52 - 1 / 2 \<le> \<bar>of_int ?m\<bar>" "\<bar>(of_int ?m :: rat)\<bar> \<le> 2 ^ 53 + 1 / 2"
    using x near by linarith+
  then have "(of_int (2 ^ 52 - 1) :: rat) < of_int \<bar>?m\<bar>" "(of_int \<bar>?m\<bar> :: rat) < of_int (2 ^ 53 + 1)"
    by simp_all
  then have "2 ^ 52 - 1 < \<bar>?m\<bar>" "\<bar>?m\<bar> < 2 ^ 53 + 1"
    by (simp_all only: of_int_less_iff)
  then have "2 ^ 52 \<le> \<bar>?m\<bar> \<and> \<bar>?m\<bar> \<le> 2 ^ 53"
    by simp
  moreover have "fl q = of_int ?m * ?ulp"
    using assms by (simp add: fl_def Let_def)
  ultimately show ?thesis
    by blast
qed


lemma round_half_even_tie:
  "round_half_even (of_int k + 1 / 2) = (if even k then k else k + 1)"
proof -
  have "\<lfloor>(of_int k :: rat) + 1 / 2\<rfloor> = k"
    by linarith
  then show ?thesis
    by (simp add: round_half_even_def Let_def)
qed

section \<open>The claims\<close>

text \<open>
  C1. For every point \<open>(x, y, z)\<close> that passes the validity gate, \<open>project3Functional\<close>
  returns the keypoint \<open>(fu * u + cu, fv * v + cv)\<close>, where \<open>(u, v)\<close> is
  \<open>(x * rz, y * rz)\<close> with \<open>d = \<parallel>p\<parallel>\<close> and \<open>rz = 1 / (z + xi * d)\<close>, distorted when the camera
  has a distortion, and \<open>xi, fu, fv, cu, cv\<close> are the active intrinsics (the external vector
  when given, the camera's own otherwise). The gate makes the denominator of \<open>rz\<close>
  positive, and the status is the classification of that keypoint.
\<close>

theorem project3Functional_keypoint:
  fixes c :: camera and intrinsics_external distortion_coefficients_external :: "real list option"
    and x y z :: real and jp :: "mat23 option"
  defines "intr \<equiv> (case intrinsics_external of None \<Rightarrow> getParameters c | Some v \<Rightarrow> v)"
  defines "d \<equiv> sqrt (x\<^sup>2 + y\<^sup>2 + z\<^sup>2)"
  defines "rz \<equiv> 1 / (z + intr ! 0 * d)"
  defines "uv \<equiv> (case distortion_ptr c of
                   None \<Rightarrow> (x * rz, y * rz)
                 | Some dm \<Rightarrow>
                     fst (distortUsingExternalCoefficients dm
                            (resolve_distortion_coefficients c distortion_coefficients_external)
                            (x * rz, y * rz) (jp \<noteq> None)))"
  defines "keypoint \<equiv> (intr ! 1 * fst uv + intr ! 3, intr ! 2 * snd uv + intr ! 4)"
  assumes len: "length intr = 5"
    and gate: "z > - ((if intr ! 0 \<le> 1 then intr ! 0 else 1 / intr ! 0) * d)"
  shows "0 < z + intr ! 0 * d \<and>
         (\<exists>outs. project3Functional c (x, y, z) intrinsics_external
                    distortion_coefficients_external (Some kp_old) jp ji jd =
                  Inr (evaluateProjectionResult c keypoint (x, y, z), outs) \<and>
                  out_keypoint outs = keypoint)"
proof
  have d: "d = norm3 (x, y, z)"
    by (simp add: d_def norm3_def squaredNorm_def power2_eq_square)
  have gate': "z > - (fov_parameter (intr ! 0) * norm3 (x, y, z))"
    using gate by (simp add: d fov_parameter_def)
  have "0 \<le> d"
    by (simp add: d_def)
  then show "0 < z + intr ! 0 * d"
    using gate' unfolding d [symmetric] by (rule gate_denominator_positive)
  have "fst (distort_keypoint (distortion_ptr c)
               (resolve_distortion_coefficients c distortion_coefficients_external)
               (jp \<noteq> None) (x * rz, y * rz)) = uv"
    by (simp add: distort_keypoint_def uv_def split: option.split)
  then show "\<exists>outs. project3Functional c (x, y, z) intrinsics_external
                    distortion_coefficients_external (Some kp_old) jp ji jd =
                  Inr (evaluateProjectionResult c keypoint (x, y, z), outs) \<and>
                  out_keypoint outs = keypoint"
    unfolding project3Functional_valid_unfold
        [OF len [unfolded intr_def] gate' [unfolded intr_def]]
      keypoint_def rz_def d intr_def
    by simp
qed

theorem project3Functional_keypoint_witness:
  "(\<exists>outs. project3Functional testcam (0, 0, 1) None None (Some (7, 7)) None None None =
            Inr (KEYPOINT_VISIBLE, outs) \<and> out_keypoint outs = (320, 240)) \<and>
   (\<exists>outs. project3Functional distcam (1, 0, 0) (Some [1, 10, 10, 5, 5]) None (Some (7, 7))
              None None None =
            Inr (KEYPOINT_VISIBLE, outs) \<and> out_keypoint outs = (25, 5))"
  using project3Functional_keypoint
      [where c = testcam and x = 0 and y = 0 and z = 1 and intrinsics_external = None
         and distortion_coefficients_external = None and kp_old = "(7, 7)" and jp = None
         and ji = None and jd = None]
    project3Functional_keypoint
      [where c = distcam and x = 1 and y = 0 and z = 0
         and intrinsics_external = "Some [1, 10, 10, 5, 5]"
         and distortion_coefficients_external = None and kp_old = "(7, 7)" and jp = None
         and ji = None and jd = None]
  by (simp add: getParameters_def testcam_def distcam_def scaling_distortion_def
      resolve_distortion_coefficients_def evaluateProjectionResult_def isKeypointVisible_def
      imageWidth_def imageHeight_def squaredNorm_def kMinimumDepth_def)

text \<open>
  C2. For every point with \<open>z \<le> - fov(xi) * d\<close>, where \<open>d = \<parallel>p\<parallel>\<close> and \<open>fov(xi)\<close> is \<open>xi\<close>
  when \<open>xi \<le> 1\<close> and \<open>1 / xi\<close> otherwise, \<open>project3Functional\<close> stores the keypoint
  \<open>(0, 0)\<close>, returns \<open>PROJECTION_INVALID\<close> and leaves the three Jacobian outputs as they
  were.
\<close>

theorem project3Functional_invalid:
  fixes c :: camera and intrinsics_external :: "real list option" and x y z :: real
  defines "intr \<equiv> (case intrinsics_external of None \<Rightarrow> getParameters c | Some v \<Rightarrow> v)"
  defines "d \<equiv> sqrt (x\<^sup>2 + y\<^sup>2 + z\<^sup>2)"
  assumes len: "length intr = 5"
    and gate: "z \<le> - ((if intr ! 0 \<le> 1 then intr ! 0 else 1 / intr ! 0) * d)"
  shows "project3Functional c (x, y, z) intrinsics_external distortion_coefficients_external
           (Some kp_old) jp ji jd =
         Inr (PROJECTION_INVALID,
              \<lparr>out_keypoint = (0, 0), out_jacobian_point = jp, out_jacobian_intrinsics = ji,
               out_jacobian_distortion = jd\<rparr>)"
  using len gate
  unfolding intr_def d_def
  by (auto simp: project3Functional_def Let_def kNumOfParams_def norm3_def squaredNorm_def
      fov_parameter_def power2_eq_square)

theorem project3Functional_invalid_witness:
  "project3Functional testcam (0, 0, - 1) None None (Some (7, 7))
     (Some ((1, 2, 3), (4, 5, 6))) (Some ([1], [2])) (Some ([], [])) =
   Inr (PROJECTION_INVALID,
        \<lparr>out_keypoint = (0, 0), out_jacobian_point = Some ((1, 2, 3), (4, 5, 6)),
         out_jacobian_intrinsics = Some ([1], [2]), out_jacobian_distortion = Some ([], [])\<rparr>) \<and>
   project3Functional mirrorcam (1, 0, - 1) None None (Some (7, 7)) None None None =
   Inr (PROJECTION_INVALID,
        \<lparr>out_keypoint = (0, 0), out_jacobian_point = None,
         out_jacobian_intrinsics = None, out_jacobian_distortion = None\<rparr>)"
proof -
  have "sqrt 2 \<le> 2"
    by (rule real_le_lsqrt) simp_all
  then show ?thesis
    using project3Functional_invalid
        [where c = testcam and x = 0 and y = 0 and z = "- 1" and intrinsics_external = None
           and distortion_coefficients_external = None and kp_old = "(7, 7)"
           and jp = "Some ((1, 2, 3), (4, 5, 6))" and ji = "Some ([1], [2])"
           and jd = "Some ([], [])"]
      project3Functional_invalid
        [where c = mirrorcam and x = 1 and y = 0 and z = "- 1" and intrinsics_external = None
           and distortion_coefficients_external = None and kp_old = "(7, 7)"
           and jp = None and ji = None and jd = None]
    by (simp add: getParameters_def testcam_def mirrorcam_def)
qed

text \<open>
  C3. \<open>evaluateProjectionResult\<close> follows the decision table with \<open>minDepth = 1e-10\<close>: the
  result is \<open>KEYPOINT_VISIBLE\<close> exactly when the keypoint is inside the image box and
  \<open>\<parallel>p\<parallel>\<^sup>2 > minDepth\<^sup>2\<close>, \<open>KEYPOINT_OUTSIDE_IMAGE_BOX\<close> exactly when it is outside the box and
  \<open>\<parallel>p\<parallel>\<^sup>2 > minDepth\<^sup>2\<close>, and \<open>PROJECTION_INVALID\<close> whenever \<open>\<parallel>p\<parallel>\<^sup>2 \<le> minDepth\<^sup>2\<close>, wherever the
  keypoint lies.
\<close>

theorem evaluateProjectionResult_table:
  "(evaluateProjectionResult c kp p = KEYPOINT_VISIBLE \<longleftrightarrow>
      isKeypointVisible c kp \<and> squaredNorm p > (1 / 10 ^ 10)\<^sup>2) \<and>
   (evaluateProjectionResult c kp p = KEYPOINT_OUTSIDE_IMAGE_BOX \<longleftrightarrow>
      \<not> isKeypointVisible c kp \<and> squaredNorm p > (1 / 10 ^ 10)\<^sup>2) \<and>
   (squaredNorm p \<le> (1 / 10 ^ 10)\<^sup>2 \<longrightarrow> evaluateProjectionResult c kp p = PROJECTION_INVALID)"
  by (simp add: evaluateProjectionResult_def kMinimumDepth_def power2_eq_square Let_def)

theorem evaluateProjectionResult_table_witness:
  "evaluateProjectionResult testcam (320, 240) (0, 0, 1) = KEYPOINT_VISIBLE \<and>
   evaluateProjectionResult testcam (- 10, 240) (0, 0, 1) = KEYPOINT_OUTSIDE_IMAGE_BOX \<and>
   evaluateProjectionResult testcam (320, 240) (0, 0, 1 / 10 ^ 11) = PROJECTION_INVALID \<and>
   evaluateProjectionResult testcam (- 10, 240) (0, 0, 0) = PROJECTION_INVALID"
  using evaluateProjectionResult_table [of testcam "(320, 240)" "(0, 0, 1)"]
    evaluateProjectionResult_table [of testcam "(- 10, 240)" "(0, 0, 1)"]
    evaluateProjectionResult_table [of testcam "(320, 240)" "(0, 0, 1 / 10 ^ 11)"]
    evaluateProjectionResult_table [of testcam "(- 10, 240)" "(0, 0, 0)"]
  by (simp add: isKeypointVisible_def imageWidth_def imageHeight_def squaredNorm_def testcam_def
      power2_eq_square)

text \<open>
  C4. \<open>isUndistortedKeypointValid rho2_d xi\<close> holds exactly when \<open>xi \<le> 1\<close> or
  \<open>rho2_d \<le> 1 / (xi\<^sup>2 - 1)\<close>: for \<open>xi \<le> 1\<close> it holds for every \<open>rho2_d\<close>, and for \<open>xi > 1\<close> it
  holds exactly on the disk \<open>rho2_d \<le> 1 / (xi\<^sup>2 - 1)\<close>.
\<close>

theorem isUndistortedKeypointValid_domain:
  "(isUndistortedKeypointValid rho2_d x \<longleftrightarrow> x \<le> 1 \<or> rho2_d \<le> 1 / (x\<^sup>2 - 1)) \<and>
   (x \<le> 1 \<longrightarrow> isUndistortedKeypointValid rho2_d x) \<and>
   (1 < x \<longrightarrow> (isUndistortedKeypointValid rho2_d x \<longleftrightarrow> rho2_d \<le> 1 / (x\<^sup>2 - 1)))"
  by (auto simp: isUndistortedKeypointValid_def power2_eq_square)

theorem isUndistortedKeypointValid_domain_witness:
  "isUndistortedKeypointValid 1000 (1 / 2) \<and> isUndistortedKeypointValid (1 / 3) 2 \<and>
   \<not> isUndistortedKeypointValid (1 / 2) 2"
  using isUndistortedKeypointValid_domain [of 1000 "1 / 2"]
    isUndistortedKeypointValid_domain [of "1 / 3" 2]
    isUndistortedKeypointValid_domain [of "1 / 2" 2]
  by simp

text \<open>
  C5. \<open>backProject3\<close> writes the bearing vector
  \<open>(u, v, 1 - xi * (rho2_d + 1) / (xi + sqrt t))\<close>, where \<open>(u, v)\<close> is
  \<open>((kp.x - cu) / fu, (kp.y - cv) / fv)\<close>, undistorted when the camera has a distortion,
  \<open>rho2_d = u\<^sup>2 + v\<^sup>2\<close> and \<open>t = max (1 + (1 - xi\<^sup>2) * rho2_d) 0\<close>. It returns
  \<open>isUndistortedKeypointValid rho2_d xi\<close>, and neither result depends on the image size.
\<close>

theorem backProject3_bearing:
  "(let uv = ((fst kp - cu c) / fu c, (snd kp - cv c) / fv c);
        uv = (case distortion_ptr c of None \<Rightarrow> uv | Some dm \<Rightarrow> undistort dm uv);
        rho2_d = (fst uv)\<^sup>2 + (snd uv)\<^sup>2;
        t = max (1 + (1 - (xi c)\<^sup>2) * rho2_d) 0
    in backProject3 c kp (Some out_old) =
         Inr (isUndistortedKeypointValid rho2_d (xi c),
              (fst uv, snd uv, 1 - xi c * (rho2_d + 1) / (xi c + sqrt t)))) \<and>
   backProject3 (c\<lparr>image_width := w, image_height := h\<rparr>) kp (Some out_old) =
     backProject3 c kp (Some out_old)"
  by (simp add: backProject3_def Let_def power2_eq_square xi_def fu_def fv_def cu_def cv_def)

theorem backProject3_bearing_witness:
  "backProject3 testcam (320, 240) (Some (7, 7, 7)) = Inr (True, (0, 0, 10 / 19)) \<and>
   backProject3 (testcam\<lparr>image_width := 1, image_height := 1\<rparr>) (320, 240) (Some (7, 7, 7)) =
     Inr (True, (0, 0, 10 / 19)) \<and>
   backProject3 mirrorcam (2, 1) (Some (7, 7, 7)) = Inr (False, (1, 0, - 1))"
  using backProject3_bearing [of "(320, 240)" testcam "(7, 7, 7)" 1 1]
    backProject3_bearing [of "(2, 1)" mirrorcam "(7, 7, 7)" 4 4]
  by (simp add: testcam_def mirrorcam_def xi_def fu_def fv_def cu_def cv_def
      isUndistortedKeypointValid_def)

text \<open>
  C6. The claim: whenever the intrinsics Jacobian is requested, with or without the point
  Jacobian, its column 0 is the distortion Jacobian \<open>J_d\<close> (rows scaled by \<open>fu\<close> and \<open>fv\<close>)
  applied to \<open>(- u * d * rz, - v * d * rz)\<close>, and the other columns hold \<open>u\<close>, \<open>1\<close>, \<open>v\<close>, \<open>1\<close>
  at \<open>(0,1)\<close>, \<open>(0,3)\<close>, \<open>(1,2)\<close>, \<open>(1,4)\<close> and zero elsewhere. The code asks the distortion for
  \<open>J_d\<close> only when the point Jacobian is requested. On \<open>distcam\<close>, whose distortion has the
  Jacobian \<open>2 * I\<close>, a call that requests the intrinsics Jacobian alone returns the column
  \<open>(- 200, 0)\<close>, which is the identity applied to the vector; \<open>J_d\<close> applied to it is
  \<open>(- 400, 0)\<close>. The same call with the point Jacobian requested returns \<open>(- 400, 0)\<close>.
\<close>

theorem intrinsics_jacobian_without_point_jacobian:
  "project3Functional distcam (1, 0, 0) None None (Some (7, 7)) None (Some ([], [])) None =
     Inr (KEYPOINT_OUTSIDE_IMAGE_BOX,
          \<lparr>out_keypoint = (300, 100), out_jacobian_point = None,
           out_jacobian_intrinsics = Some ([- 200, 2, 0, 1, 0], [0, 0, 0, 0, 1]),
           out_jacobian_distortion = None\<rparr>) \<and>
   distortUsingExternalCoefficients (scaling_distortion 2) (Some [2]) (1, 0) True =
     ((2, 0), ((2, 0), (0, 2))) \<and>
   mat2_times_vec (scale_rows2 100 100 ((2, 0), (0, 2))) (- 2 * 1 * 1, - 0 * 1 * 1) = (- 400, 0) \<and>
   (\<exists>st outs.
      project3Functional distcam (1, 0, 0) None None (Some (7, 7)) (Some ((0, 0, 0), (0, 0, 0)))
        (Some ([], [])) None = Inr (st, outs) \<and>
      out_jacobian_intrinsics outs = Some ([- 400, 2, 0, 1, 0], [0, 0, 0, 0, 1]))"
  by (simp add: project3Functional_valid_unfold
      getParameters_def distcam_def fov_parameter_def norm3_def squaredNorm_def
      distort_keypoint_def resolve_distortion_coefficients_def scaling_distortion_def
      jacobian_intrinsics_entries jacobian_distortion_def evaluateProjectionResult_def
      isKeypointVisible_def imageWidth_def imageHeight_def kMinimumDepth_def
      mat2_times_vec_def scale_rows2_def Identity2_def Let_def)

text \<open>
  C7. The claim: the distortion-coefficients Jacobian is the distortion's parameter Jacobian
  evaluated with the active coefficient vector (the external one when given, the camera's
  own otherwise), rows scaled by \<open>fu\<close> and \<open>fv\<close>. The code hands
  \<^verbatim>\<open>distortion_coefficients_external\<close> to \<open>distortParameterJacobian\<close>, not the pointer it
  resolved. On \<open>distcam\<close> with no external coefficients the distortion receives a null
  pointer and the result is the empty matrix it builds from that; with the resolved vector
  \<open>[2]\<close> the scaled result is \<open>([200], [0])\<close>.
\<close>

theorem distortion_jacobian_with_null_coefficients:
  "project3Functional distcam (1, 0, 0) None None (Some (7, 7)) None None (Some ([7], [7])) =
     Inr (KEYPOINT_OUTSIDE_IMAGE_BOX,
          \<lparr>out_keypoint = (300, 100), out_jacobian_point = None,
           out_jacobian_intrinsics = None,
           out_jacobian_distortion =
             Some (scale_rowsX 100 100
                     (distortParameterJacobian (scaling_distortion 2) None (2, 0)))\<rparr>) \<and>
   scale_rowsX 100 100 (distortParameterJacobian (scaling_distortion 2) None (2, 0)) =
     ([], []) \<and>
   resolve_distortion_coefficients distcam None = Some [2] \<and>
   scale_rowsX 100 100 (distortParameterJacobian (scaling_distortion 2) (Some [2]) (2, 0)) =
     ([200], [0])"
  by (simp add: project3Functional_valid_unfold
      getParameters_def distcam_def fov_parameter_def norm3_def squaredNorm_def
      distort_keypoint_def resolve_distortion_coefficients_def scaling_distortion_def
      jacobian_distortion_def evaluateProjectionResult_def
      isKeypointVisible_def imageWidth_def imageHeight_def kMinimumDepth_def
      scale_rowsX_def Identity2_def Let_def)

text \<open>
  C8. Constructing a camera from an intrinsics vector \<open>v\<close> succeeds only when \<open>v\<close> has
  exactly 5 elements with \<open>v[0] \<ge> 0\<close> and \<open>v[1], v[2], v[3], v[4] > 0\<close>; every other vector is
  rejected by the failed check. A camera so constructed holds \<open>v\<close> and satisfies
  \<open>xi \<ge> 0\<close>, \<open>fu > 0\<close>, \<open>fv > 0\<close>, \<open>cu > 0\<close>, \<open>cv > 0\<close>.
\<close>

theorem UnifiedProjectionCamera_validates:
  "(UnifiedProjectionCamera v w h dopt = Inr c \<longrightarrow>
      length v = 5 \<and> v ! 0 \<ge> 0 \<and> v ! 1 > 0 \<and> v ! 2 > 0 \<and> v ! 3 > 0 \<and> v ! 4 > 0 \<and>
      intrinsics c = v \<and> xi c \<ge> 0 \<and> fu c > 0 \<and> fv c > 0 \<and> cu c > 0 \<and> cv c > 0) \<and>
   (\<not> (length v = 5 \<and> v ! 0 \<ge> 0 \<and> v ! 1 > 0 \<and> v ! 2 > 0 \<and> v ! 3 > 0 \<and> v ! 4 > 0) \<longrightarrow>
      UnifiedProjectionCamera v w h dopt = Inl CheckFailed)"
  by (auto simp: UnifiedProjectionCamera_def intrinsicsValid_def parameterCount_def
      kNumOfParams_def xi_def fu_def fv_def cu_def cv_def)

theorem UnifiedProjectionCamera_validates_witness:
  "UnifiedProjectionCamera [9 / 10, 400, 400, 320, 240] 640 480 None = Inr testcam \<and>
   createTestCamera = Inr testcam \<and>
   xi testcam = 9 / 10 \<and> fu testcam = 400 \<and> cv testcam = 240 \<and>
   UnifiedProjectionCamera [- 1, 400, 400, 320, 240] 640 480 None = Inl CheckFailed \<and>
   UnifiedProjectionCamera [9 / 10, 0, 400, 320, 240] 640 480 None = Inl CheckFailed \<and>
   UnifiedProjectionCamera [400, 400, 320, 240] 640 480 None = Inl CheckFailed"
  using UnifiedProjectionCamera_validates
      [of "[9 / 10, 400, 400, 320, 240]" 640 480 None testcam]
    UnifiedProjectionCamera_validates [of "[- 1, 400, 400, 320, 240]" 640 480 None testcam]
    UnifiedProjectionCamera_validates [of "[9 / 10, 0, 400, 320, 240]" 640 480 None testcam]
    UnifiedProjectionCamera_validates [of "[400, 400, 320, 240]" 640 480 None testcam]
  by (simp add: UnifiedProjectionCamera_def intrinsicsValid_def parameterCount_def
      kNumOfParams_def testcam_def xi_def fu_def cv_def createTestCamera_def
      UnifiedProjectionCamera_scalars_def)

text \<open>
  C9. \<open>createRandomKeypoint\<close> is a rejection-sampling loop of at most 10 draws, for any
  sequence of draws. It returns the first candidate that is both liftable and inside the
  image box, with the number of draws taken so far, if there is one among the first nine
  candidates. Otherwise it takes a tenth draw and returns the principal point \<open>(cu, cv)\<close>
  without testing the tenth candidate. So the returned keypoint is finite and is either
  liftable and inside the image box or the principal point; the function always returns,
  and it reads no draw beyond the first 10. A candidate is made from a draw \<open>(r, f)\<close> by
  centring \<open>r\<close>, dividing it by its norm, multiplying it by \<open>f * (1 / (xi\<^sup>2 - 1))\<close>,
  distorting it and taking the affine step. When \<open>xi\<^sup>2 = 1\<close> or the centred vector is zero,
  the division by zero makes the candidate of a camera without distortion infinite or
  NaN, and it is rejected.
\<close>

theorem createRandomKeypoint_result:
  "(k < 9 \<and> (\<forall>j < k. \<not> keypointAccepted c (randomCandidate c (draws j))) \<and>
    keypointAccepted c (randomCandidate c (draws k)) \<longrightarrow>
      createRandomKeypoint c draws = (randomCandidate c (draws k), Suc k)) \<and>
   ((\<forall>j < 9. \<not> keypointAccepted c (randomCandidate c (draws j))) \<longrightarrow>
      createRandomKeypoint c draws = ((Fin (cu c), Fin (cv c)), 10)) \<and>
   (\<exists>a b. fst (createRandomKeypoint c draws) = (Fin a, Fin b) \<and>
      ((isLiftable c (a, b) \<and> isKeypointVisible c (a, b)) \<or> (a, b) = (cu c, cv c))) \<and>
   ((\<forall>j < 10. draws j = draws' j) \<longrightarrow>
      createRandomKeypoint c draws = createRandomKeypoint c draws') \<and>
   ((xi c)\<^sup>2 \<noteq> 1 \<and> r \<noteq> (1 / 2, 1 / 2) \<longrightarrow>
      randomCandidate c (r, f) =
        (let w = (fst r - 1 / 2, snd r - 1 / 2);
             n = sqrt ((fst w)\<^sup>2 + (snd w)\<^sup>2);
             s = f * (1 / ((xi c)\<^sup>2 - 1));
             p = (Fin (fst w / n * s), Fin (snd w / n * s));
             q = (case distortion_ptr c of None \<Rightarrow> p | Some dm \<Rightarrow> distort dm p)
         in (xadd (xmul (Fin (fu c)) (fst q)) (Fin (cu c)),
             xadd (xmul (Fin (fv c)) (snd q)) (Fin (cv c))))) \<and>
   (distortion_ptr c = None \<and> ((xi c)\<^sup>2 = 1 \<or> r = (1 / 2, 1 / 2)) \<longrightarrow>
      \<not> keypointAccepted c (randomCandidate c (r, f)))"
proof (intro conjI impI)
  assume "k < 9 \<and> (\<forall>j < k. \<not> keypointAccepted c (randomCandidate c (draws j))) \<and>
    keypointAccepted c (randomCandidate c (draws k))"
  then show "createRandomKeypoint c draws = (randomCandidate c (draws k), Suc k)"
    unfolding createRandomKeypoint_def
    by (intro createRandomKeypoint_loop_first_accepted start_not_accepted) simp_all
next
  assume "\<forall>j < 9. \<not> keypointAccepted c (randomCandidate c (draws j))"
  then have "createRandomKeypoint c draws = ((Fin (cu c), Fin (cv c)), 0 + nat 10)"
    unfolding createRandomKeypoint_def
    by (intro createRandomKeypoint_loop_exhausted start_not_accepted) simp_all
  then show "createRandomKeypoint c draws = ((Fin (cu c), Fin (cv c)), 10)"
    by simp
next
  show "\<exists>a b. fst (createRandomKeypoint c draws) = (Fin a, Fin b) \<and>
      ((isLiftable c (a, b) \<and> isKeypointVisible c (a, b)) \<or> (a, b) = (cu c, cv c))"
    using createRandomKeypoint_loop_result
      [of c draws 0 10 "(Fin (imageWidth c + 1), Fin (imageHeight c + 1))"]
    unfolding createRandomKeypoint_def keypointAccepted_Fin by auto
next
  assume "\<forall>j < 10. draws j = draws' j"
  then show "createRandomKeypoint c draws = createRandomKeypoint c draws'"
    unfolding createRandomKeypoint_def
    by (intro createRandomKeypoint_loop_draws) simp
next
  assume fin: "(xi c)\<^sup>2 \<noteq> 1 \<and> r \<noteq> (1 / 2, 1 / 2)"
  then have "fst r - 1 / 2 \<noteq> 0 \<or> snd r - 1 / 2 \<noteq> 0"
    by (cases r) auto
  then have "(fst r - 1 / 2) * (fst r - 1 / 2) + (snd r - 1 / 2) * (snd r - 1 / 2) \<noteq> 0"
    by (metis add_nonneg_eq_0_iff mult_eq_0_iff zero_le_square)
  then have n: "norm2 (fst r - 1 / 2, snd r - 1 / 2) \<noteq> 0"
    by (simp add: norm2_def)
  from fin have x: "xi c * xi c - 1 \<noteq> 0"
    by (simp add: power2_eq_square)
  show "randomCandidate c (r, f) =
        (let w = (fst r - 1 / 2, snd r - 1 / 2);
             n = sqrt ((fst w)\<^sup>2 + (snd w)\<^sup>2);
             s = f * (1 / ((xi c)\<^sup>2 - 1));
             p = (Fin (fst w / n * s), Fin (snd w / n * s));
             q = (case distortion_ptr c of None \<Rightarrow> p | Some dm \<Rightarrow> distort dm p)
         in (xadd (xmul (Fin (fu c)) (fst q)) (Fin (cu c)),
             xadd (xmul (Fin (fv c)) (snd q)) (Fin (cv c))))"
    using n x
    by (simp add: randomCandidate_def Let_def xdiv_def norm2_def power2_eq_square ac_simps
        split: option.split)
next
  assume "distortion_ptr c = None \<and> ((xi c)\<^sup>2 = 1 \<or> r = (1 / 2, 1 / 2))"
  then show "\<not> keypointAccepted c (randomCandidate c (r, f))"
    by (intro randomCandidate_division_by_zero) (auto simp: power2_eq_square)
qed

theorem createRandomKeypoint_result_witness:
  "createRandomKeypoint testcam
     (\<lambda>j. if j = 0 then ((- (1 / 2), 1 / 2), 1 / 2) else ((- (1 / 2), 1 / 2), 19 / 1000)) =
     ((Fin 360, Fin 240), 2) \<and>
   createRandomKeypoint testcam (\<lambda>j. ((- (1 / 2), 1 / 2), 1 / 2)) = ((Fin 320, Fin 240), 10) \<and>
   createRandomKeypoint testcam
     (\<lambda>j. if j < 10 then ((- (1 / 2), 1 / 2), 1 / 2) else ((- (1 / 2), 1 / 2), 19 / 1000)) =
     ((Fin 320, Fin 240), 10) \<and>
   createRandomKeypoint unitcam (\<lambda>j. ((- (1 / 2), 1 / 2), 19 / 1000)) =
     ((Fin 320, Fin 240), 10) \<and>
   createRandomKeypoint testcam (\<lambda>j. ((1 / 2, 1 / 2), 19 / 1000)) = ((Fin 320, Fin 240), 10) \<and>
   randomCandidate testcam ((- (1 / 2), 1 / 2), 19 / 1000) = (Fin 360, Fin 240) \<and>
   randomCandidate testcam ((- (1 / 2), 1 / 2), 1 / 2) = (Fin (26080 / 19), Fin 240) \<and>
   isLiftable testcam (360, 240) \<and> isKeypointVisible testcam (360, 240)"
proof -
  let ?good = "((- (1 / 2), 1 / 2), 19 / 1000) :: draw"
  let ?bad = "((- (1 / 2), 1 / 2), 1 / 2) :: draw"
  let ?zero = "((1 / 2, 1 / 2), 19 / 1000) :: draw"
  note res = createRandomKeypoint_result
  have xi: "(xi testcam)\<^sup>2 \<noteq> 1" "(xi unitcam)\<^sup>2 = 1"
    by (simp_all add: xi_def testcam_def unitcam_def power2_eq_square)
  have nodist: "distortion_ptr testcam = None" "distortion_ptr unitcam = None"
    by (simp_all add: testcam_def unitcam_def)
  have good: "randomCandidate testcam ?good = (Fin 360, Fin 240)"
    using res [of 0 testcam "\<lambda>j. ?good" "\<lambda>j. ?good" "fst ?good" "snd ?good"] xi(1)
    by (simp add: testcam_def xi_def fu_def fv_def cu_def cv_def power2_eq_square)
  have bad: "randomCandidate testcam ?bad = (Fin (26080 / 19), Fin 240)"
    using res [of 0 testcam "\<lambda>j. ?bad" "\<lambda>j. ?bad" "fst ?bad" "snd ?bad"] xi(1)
    by (simp add: testcam_def xi_def fu_def fv_def cu_def cv_def power2_eq_square)
  have accept: "isLiftable testcam (360, 240) \<and> isKeypointVisible testcam (360, 240)"
    by (simp add: isLiftable_def isUndistortedKeypointValid_def isKeypointVisible_def
        imageWidth_def imageHeight_def testcam_def xi_def Let_def)
  have ok: "keypointAccepted testcam (randomCandidate testcam ?good)"
    using accept by (simp add: good keypointAccepted_def)
  have no: "\<not> keypointAccepted testcam (randomCandidate testcam ?bad)"
    unfolding bad
    by (simp add: keypointAccepted_def isKeypointVisible_def imageWidth_def imageHeight_def
        testcam_def)
  have unit: "\<not> keypointAccepted unitcam (randomCandidate unitcam ?good)"
    using res [of 0 unitcam "\<lambda>j. ?good" "\<lambda>j. ?good" "fst ?good" "snd ?good"] xi(2) nodist(2)
    by simp
  have zero: "\<not> keypointAccepted testcam (randomCandidate testcam ?zero)"
    using res [of 0 testcam "\<lambda>j. ?zero" "\<lambda>j. ?zero" "fst ?zero" "snd ?zero"] nodist(1)
    by simp
  have principal: "cu testcam = 320" "cv testcam = 240" "cu unitcam = 320" "cv unitcam = 240"
    by (simp_all add: cu_def cv_def testcam_def unitcam_def)
  have first: "createRandomKeypoint testcam (\<lambda>j. if j = 0 then ?bad else ?good) =
      ((Fin 360, Fin 240), 2)"
    using res [of 1 testcam "\<lambda>j. if j = 0 then ?bad else ?good" "\<lambda>j. ?good"
        "fst ?good" "snd ?good"] ok no
    by (simp add: good)
  have none: "createRandomKeypoint testcam (\<lambda>j. ?bad) = ((Fin 320, Fin 240), 10)"
    using res [of 0 testcam "\<lambda>j. ?bad" "\<lambda>j. if j < 10 then ?bad else ?good"
        "fst ?good" "snd ?good"] no
    by (simp add: principal)
  have same: "createRandomKeypoint testcam (\<lambda>j. if j < 10 then ?bad else ?good) =
      ((Fin 320, Fin 240), 10)"
    using res [of 0 testcam "\<lambda>j. ?bad" "\<lambda>j. if j < 10 then ?bad else ?good"
        "fst ?good" "snd ?good"] none
    by simp
  have atone: "createRandomKeypoint unitcam (\<lambda>j. ?good) = ((Fin 320, Fin 240), 10)"
    using res [of 0 unitcam "\<lambda>j. ?good" "\<lambda>j. ?good" "fst ?good" "snd ?good"] unit
    by (simp add: principal)
  have atzero: "createRandomKeypoint testcam (\<lambda>j. ?zero) = ((Fin 320, Fin 240), 10)"
    using res [of 0 testcam "\<lambda>j. ?zero" "\<lambda>j. ?zero" "fst ?zero" "snd ?zero"] zero
    by (simp add: principal)
  from first none same atone atzero good bad accept show ?thesis
    by simp
qed

text \<open>
  C10. The claim: \<open>backProject3\<close> returns true exactly when \<open>isLiftable\<close> returns true. In
  exact arithmetic it holds (\<open>backProject3_flag_isLiftable_exact\<close> above). In binary64
  arithmetic it fails in both directions.

  On the camera with intrinsics \<open>(1.25, 75, 75, 320, 240)\<close>, an image of 640 by 480 and no
  distortion, at the keypoint \<open>(420, 240)\<close>, which is inside the image:
  \<open>(420 - 320) / 75\<close> rounds to \<open>6004799503160661 / 2\<^sup>5\<^sup>2\<close> and its square rounds to the
  bound \<open>1 / (1.25\<^sup>2 - 1)\<close>, so \<open>backProject3\<close> returns true, while \<open>1 / 75 * (420 - 320)\<close>
  rounds to \<open>6004799503160662 / 2\<^sup>5\<^sup>2\<close>, whose square rounds above the bound, so
  \<open>isLiftable\<close> returns false.

  On the camera with intrinsics \<open>(2, 694, 694, 225, 225)\<close> and no distortion, at the keypoint
  \<open>(1375887260470953 / 2\<^sup>4\<^sup>1, 225)\<close>, about \<open>(625.68, 225)\<close>, \<open>isLiftable\<close> returns true and
  \<open>backProject3\<close> returns false; \<open>createRandomVisiblePoint\<close> checks that \<open>backProject3\<close>
  succeeds on a keypoint that \<open>isLiftable\<close> has accepted.

  In both examples the products that are added are exact or added to zero, so a fused
  multiply-add gives the same values.
\<close>

theorem binary64_flags_disagree:
  "backProject3_flag64 edgecam64 (420, 240) \<and> \<not> isLiftable64 edgecam64 (420, 240) \<and>
   list_all is_binary64 (intrinsics64 edgecam64) \<and> is_binary64 420 \<and> is_binary64 240 \<and>
   fdiv (fsub 420 320) 75 = 6004799503160661 / 2 ^ 52 \<and>
   fmul (fdiv 1 75) (fsub 420 320) = 6004799503160662 / 2 ^ 52 \<and>
   UnifiedProjectionCamera [5 / 4, 75, 75, 320, 240] 640 480 None = Inr edgecam \<and>
   isKeypointVisible edgecam (420, 240) \<and>
   isLiftable edgecam (420, 240) \<and>
   backProject3 edgecam (420, 240) (Some (0, 0, 0)) = Inr (True, (4 / 3, 0, - (16 / 9))) \<and>
   isLiftable64 rimcam64 (1375887260470953 / 2 ^ 41, 225) \<and>
   \<not> backProject3_flag64 rimcam64 (1375887260470953 / 2 ^ 41, 225) \<and>
   list_all is_binary64 (intrinsics64 rimcam64) \<and> is_binary64 (1375887260470953 / 2 ^ 41) \<and>
   is_binary64 225"
proof -
  have "backProject3_flag64 edgecam64 (420, 240)"
    by code_simp
  moreover have "\<not> isLiftable64 edgecam64 (420, 240)"
    by code_simp
  moreover have "list_all is_binary64 (intrinsics64 edgecam64) \<and> is_binary64 420 \<and>
      is_binary64 240"
    by code_simp
  moreover have "fdiv (fsub 420 320) 75 = 6004799503160661 / 2 ^ 52 \<and>
      fmul (fdiv 1 75) (fsub 420 320) = 6004799503160662 / 2 ^ 52"
    by code_simp
  moreover have "UnifiedProjectionCamera [5 / 4, 75, 75, 320, 240] 640 480 None = Inr edgecam \<and>
      isKeypointVisible edgecam (420, 240) \<and> isLiftable edgecam (420, 240)"
    by (simp add: UnifiedProjectionCamera_def intrinsicsValid_def parameterCount_def
        kNumOfParams_def edgecam_def isKeypointVisible_def imageWidth_def imageHeight_def
        isLiftable_def isUndistortedKeypointValid_def xi_def fu_def fv_def cu_def cv_def)
  moreover have "backProject3 edgecam (420, 240) (Some (0, 0, 0)) =
      Inr (True, (4 / 3, 0, - (16 / 9)))"
    by (simp add: backProject3_def edgecam_def isUndistortedKeypointValid_def xi_def fu_def
        fv_def cu_def cv_def)
  moreover have "isLiftable64 rimcam64 (1375887260470953 / 2 ^ 41, 225)"
    by code_simp
  moreover have "\<not> backProject3_flag64 rimcam64 (1375887260470953 / 2 ^ 41, 225)"
    by code_simp
  moreover have "list_all is_binary64 (intrinsics64 rimcam64) \<and>
      is_binary64 (1375887260470953 / 2 ^ 41) \<and> is_binary64 225"
    by code_simp
  ultimately show ?thesis
    by blast
qed

end
